theory Spec2Isabelle
  imports Main "HOL-Library.Sublist"
begin

section \<open>Python values\<close>

text \<open>
  A Python \<open>str\<close> is a sequence of Unicode code points; a code point is a natural number.
  \<open>ascii\<close> turns an ASCII literal into its code points.
\<close>

type_synonym pystr = "nat list"

definition ascii :: "string \<Rightarrow> pystr" where
  "ascii s = map of_char s"

text \<open>The exceptions the modelled code can raise.\<close>

datatype py_error =
  KeyError | AttributeError | ValueError | IndexError | OverflowError
  | UnboundLocalError | ScheduleValueError

text \<open>
  A value stored under a key of a news dictionary: a string, or \<open>None\<close> (a JSON
  \<open>null\<close> of an API answer).
\<close>

datatype pyval = PyNone | PyStr pystr

text \<open>\<open>str.isspace\<close> on one code point: the whitespace set of CPython.\<close>

definition isspace :: "nat \<Rightarrow> bool" where
  "isspace c =
     ((9 \<le> c \<and> c \<le> 13) \<or> (28 \<le> c \<and> c \<le> 32) \<or> c = 133 \<or> c = 160 \<or> c = 5760
      \<or> (8192 \<le> c \<and> c \<le> 8202) \<or> c = 8232 \<or> c = 8233 \<or> c = 8239 \<or> c = 8287
      \<or> c = 12288)"

text \<open>\<open>s.strip()\<close>: leading and trailing whitespace removed.\<close>

definition strip :: "pystr \<Rightarrow> pystr" where
  "strip s = rev (dropWhile isspace (rev (dropWhile isspace s)))"

text \<open>\<open>k in s\<close> on strings: \<open>k\<close> occurs in \<open>s\<close> as a contiguous block.\<close>

fun py_in :: "pystr \<Rightarrow> pystr \<Rightarrow> bool" where
  "py_in k [] = (k = [])"
| "py_in k (c # cs) = (prefix k (c # cs) \<or> py_in k cs)"

text \<open>
  \<open>v.lower()\<close>. The case mapping of \<open>str.lower\<close> is the Unicode table of the
  interpreter; it is the parameter \<open>lower\<close> of every function that lower-cases, so that
  what is proved holds for every such mapping. \<open>None\<close> has no method \<open>lower\<close>.
\<close>

definition str_lower :: "(pystr \<Rightarrow> pystr) \<Rightarrow> pyval \<Rightarrow> py_error + pystr" where
  "str_lower lower v = (case v of PyStr s \<Rightarrow> Inr (lower s) | PyNone \<Rightarrow> Inl AttributeError)"

text \<open>
  An instance of \<open>lower\<close> for examples: Python's mapping on the ASCII letters and on the
  Cyrillic capitals U+0400..U+042F, every other code point unchanged.
\<close>

definition lower_cp :: "nat \<Rightarrow> nat" where
  "lower_cp c =
     (if 65 \<le> c \<and> c \<le> 90 then c + 32
      else if 1040 \<le> c \<and> c \<le> 1071 then c + 32
      else if 1024 \<le> c \<and> c \<le> 1039 then c + 80
      else c)"

definition lower_basic :: "pystr \<Rightarrow> pystr" where
  "lower_basic s = map lower_cp s"

text \<open>\<open>if xs:\<close> on an optional list argument: neither \<open>None\<close> nor empty.\<close>

definition truthy :: "'a list option \<Rightarrow> bool" where
  "truthy xs = (case xs of None \<Rightarrow> False | Some l \<Rightarrow> l \<noteq> [])"

definition elems :: "'a list option \<Rightarrow> 'a list" where
  "elems xs = (case xs of None \<Rightarrow> [] | Some l \<Rightarrow> l)"

section \<open>news\_utils.py\<close>

text \<open>
  A news item is a dictionary with the keys below. The code reads \<open>title\<close> with
  \<open>news['title']\<close> and \<open>description\<close> with \<open>news.get('description', '')\<close>, so these two
  fields say whether the key is there (\<open>None\<close>: the key is absent).
\<close>

record news =
  title :: "pyval option"
  description :: "pyval option"
  url :: pyval
  date :: pyval
  source :: pyval
  language :: pyval

subsection \<open>NewsFilter\<close>

text \<open>\<open>self.keywords_blacklist\<close> of \<open>NewsFilter.__init__\<close>.\<close>

definition keywords_blacklist :: "pystr list" where
  "keywords_blacklist =
     [ [0x440, 0x435, 0x43A, 0x43B, 0x430, 0x43C, 0x430],
       ascii ''advertisement'', ascii ''sponsored'',
       [0x43F, 0x440, 0x43E, 0x43C, 0x43E],
       [0x430, 0x43A, 0x446, 0x438, 0x44F],
       [0x441, 0x43A, 0x438, 0x434, 0x43A, 0x430],
       ascii ''sale'', ascii ''discount'' ]"

text \<open>
  The first three lines of the loop body of \<open>filter_news\<close>:
  \<open>title_lower = news['title'].lower()\<close>,
  \<open>description_lower = news.get('description', '').lower()\<close>,
  \<open>text = f"{title_lower} {description_lower}"\<close>.
\<close>

definition item_text :: "(pystr \<Rightarrow> pystr) \<Rightarrow> news \<Rightarrow> py_error + pystr" where
  "item_text lower n =
     (case title n of
        None \<Rightarrow> Inl KeyError
      | Some t \<Rightarrow>
          (case str_lower lower t of
             Inl e \<Rightarrow> Inl e
           | Inr title_lower \<Rightarrow>
               (case str_lower lower (case description n of None \<Rightarrow> PyStr [] | Some d \<Rightarrow> d) of
                  Inl e \<Rightarrow> Inl e
                | Inr description_lower \<Rightarrow> Inr (title_lower @ [32] @ description_lower))))"

text \<open>\<open>any(keyword in text for keyword in self.keywords_blacklist)\<close>.\<close>

definition blacklisted :: "pystr \<Rightarrow> bool" where
  "blacklisted text = list_ex (\<lambda>keyword. py_in keyword text) keywords_blacklist"

text \<open>\<open>any(keyword.lower() in text for keyword in ks)\<close>.\<close>

definition any_keyword :: "(pystr \<Rightarrow> pystr) \<Rightarrow> pystr list \<Rightarrow> pystr \<Rightarrow> bool" where
  "any_keyword lower ks text = list_ex (\<lambda>keyword. py_in (lower keyword) text) ks"

text \<open>
  The loop of \<open>filter_news\<close>, with \<open>filtered_news\<close> as the accumulator; an exception
  raised in the body leaves the loop.
\<close>

fun filter_news_loop ::
  "(pystr \<Rightarrow> pystr) \<Rightarrow> pystr list option \<Rightarrow> pystr list option \<Rightarrow> news list \<Rightarrow> news list
     \<Rightarrow> py_error + news list" where
  "filter_news_loop lower keywords exclude_keywords [] filtered_news = Inr filtered_news"
| "filter_news_loop lower keywords exclude_keywords (n # rest) filtered_news =
     (case item_text lower n of
        Inl e \<Rightarrow> Inl e
      | Inr text \<Rightarrow>
          if blacklisted text
          then filter_news_loop lower keywords exclude_keywords rest filtered_news
          else if truthy exclude_keywords \<and> any_keyword lower (elems exclude_keywords) text
          then filter_news_loop lower keywords exclude_keywords rest filtered_news
          else if truthy keywords
          then (if any_keyword lower (elems keywords) text
                then filter_news_loop lower keywords exclude_keywords rest (filtered_news @ [n])
                else filter_news_loop lower keywords exclude_keywords rest filtered_news)
          else filter_news_loop lower keywords exclude_keywords rest (filtered_news @ [n]))"

definition filter_news ::
  "(pystr \<Rightarrow> pystr) \<Rightarrow> news list \<Rightarrow> pystr list option \<Rightarrow> pystr list option
     \<Rightarrow> py_error + news list" where
  "filter_news lower news_list keywords exclude_keywords =
     filter_news_loop lower keywords exclude_keywords news_list []"

text \<open>\<open>news['title'].lower().strip()\<close>, the key of \<open>remove_duplicates\<close>.\<close>

definition norm_title :: "(pystr \<Rightarrow> pystr) \<Rightarrow> news \<Rightarrow> py_error + pystr" where
  "norm_title lower n =
     (case title n of
        None \<Rightarrow> Inl KeyError
      | Some t \<Rightarrow> (case str_lower lower t of Inl e \<Rightarrow> Inl e | Inr l \<Rightarrow> Inr (strip l)))"

text \<open>The loop of \<open>remove_duplicates\<close> over \<open>seen_titles\<close> and \<open>unique_news\<close>.\<close>

fun remove_duplicates_loop ::
  "(pystr \<Rightarrow> pystr) \<Rightarrow> news list \<Rightarrow> pystr set \<Rightarrow> news list \<Rightarrow> py_error + news list" where
  "remove_duplicates_loop lower [] seen_titles unique_news = Inr unique_news"
| "remove_duplicates_loop lower (n # rest) seen_titles unique_news =
     (case norm_title lower n of
        Inl e \<Rightarrow> Inl e
      | Inr t \<Rightarrow>
          if t \<notin> seen_titles
          then remove_duplicates_loop lower rest (insert t seen_titles) (unique_news @ [n])
          else remove_duplicates_loop lower rest seen_titles unique_news)"

definition remove_duplicates :: "(pystr \<Rightarrow> pystr) \<Rightarrow> news list \<Rightarrow> py_error + news list" where
  "remove_duplicates lower news_list = remove_duplicates_loop lower news_list {} []"

section \<open>Python library: \<open>int\<close>, \<open>str.split\<close>, \<open>datetime\<close>\<close>

text \<open>\<open>s.split(sep)\<close> for a separator of one character: never an empty list.\<close>

fun split_sep :: "nat \<Rightarrow> pystr \<Rightarrow> pystr list" where
  "split_sep sep [] = [[]]"
| "split_sep sep (c # cs) =
     (if c = sep then [] # split_sep sep cs
      else (case split_sep sep cs of p # ps \<Rightarrow> (c # p) # ps | [] \<Rightarrow> [[c]]))"

text \<open>
  \<open>int(s)\<close> on a string, for ASCII input: whitespace around (tab to carriage return, and
  space), one optional sign, then decimal digits, where single underscores may stand
  between digits. Anything else raises \<open>ValueError\<close>. (Python also reads the decimal
  digits of other scripts; a time of day written with them is outside this model.)
\<close>

definition is_digit :: "nat \<Rightarrow> bool" where
  "is_digit c = (48 \<le> c \<and> c \<le> 57)"

definition int_space :: "nat \<Rightarrow> bool" where
  "int_space c = ((9 \<le> c \<and> c \<le> 13) \<or> c = 32)"

fun int_digits :: "pystr \<Rightarrow> int \<Rightarrow> py_error + int" where
  "int_digits [] acc = Inr acc"
| "int_digits [c] acc =
     (if is_digit c then Inr (acc * 10 + (int c - 48)) else Inl ValueError)"
| "int_digits (c # d # ds) acc =
     (if is_digit c then int_digits (d # ds) (acc * 10 + (int c - 48))
      else if c = 95 \<and> is_digit d then int_digits ds (acc * 10 + (int d - 48))
      else Inl ValueError)"

definition py_int :: "pystr \<Rightarrow> py_error + int" where
  "py_int s =
     (let t = rev (dropWhile int_space (rev (dropWhile int_space s)));
          neg = (case t of c # _ \<Rightarrow> c = 45 | [] \<Rightarrow> False);
          body = (case t of c # cs \<Rightarrow> if c = 43 \<or> c = 45 then cs else t | [] \<Rightarrow> [])
      in case body of
           [] \<Rightarrow> Inl ValueError
         | c # cs \<Rightarrow>
             if is_digit c
             then (case int_digits cs (int c - 48) of
                     Inl e \<Rightarrow> Inl e
                   | Inr v \<Rightarrow> Inr (if neg then - v else v))
             else Inl ValueError)"

text \<open>
  A \<open>datetime\<close> (naive, as \<open>datetime.now()\<close> returns it). The date is kept as its
  proleptic Gregorian ordinal, the number \<open>date.toordinal()\<close> gives: day 1 is
  0001-01-01, the last day 9999-12-31 is \<open>MAXORDINAL\<close>.
\<close>

record datetime =
  ordinal :: int
  hour :: int
  minute :: int
  second :: int
  microsecond :: int

definition MAXORDINAL :: int where
  "MAXORDINAL = 3652059"

definition valid_datetime :: "datetime \<Rightarrow> bool" where
  "valid_datetime d =
     (1 \<le> ordinal d \<and> ordinal d \<le> MAXORDINAL \<and> 0 \<le> hour d \<and> hour d < 24
      \<and> 0 \<le> minute d \<and> minute d < 60 \<and> 0 \<le> second d \<and> second d < 60
      \<and> 0 \<le> microsecond d \<and> microsecond d < 1000000)"

text \<open>\<open>d.weekday()\<close>: Monday is 0, Sunday is 6.\<close>

definition weekday :: "datetime \<Rightarrow> int" where
  "weekday d = (ordinal d + 6) mod 7"

text \<open>\<open>d + timedelta(days=n)\<close>: \<open>OverflowError\<close> outside the years 1 to 9999.\<close>

definition add_days :: "datetime \<Rightarrow> int \<Rightarrow> py_error + datetime" where
  "add_days d n =
     (if 1 \<le> ordinal d + n \<and> ordinal d + n \<le> MAXORDINAL
      then Inr (d\<lparr>ordinal := ordinal d + n\<rparr>)
      else Inl OverflowError)"

text \<open>\<open>d.replace(hour=h, minute=m, second=0, microsecond=0)\<close>.\<close>

definition replace_hm :: "datetime \<Rightarrow> int \<Rightarrow> int \<Rightarrow> py_error + datetime" where
  "replace_hm d h m =
     (if 0 \<le> h \<and> h < 24 \<and> 0 \<le> m \<and> m < 60
      then Inr (d\<lparr>hour := h, minute := m, second := 0, microsecond := 0\<rparr>)
      else Inl ValueError)"

text \<open>\<open>a <= b\<close> and \<open>a < b\<close> on datetimes: the order of the field tuples.\<close>

definition dt_less :: "datetime \<Rightarrow> datetime \<Rightarrow> bool" where
  "dt_less a b =
     (ordinal a < ordinal b \<or> (ordinal a = ordinal b \<and>
       (hour a < hour b \<or> (hour a = hour b \<and>
         (minute a < minute b \<or> (minute a = minute b \<and>
           (second a < second b \<or> (second a = second b \<and>
             microsecond a < microsecond b))))))))"

definition dt_le :: "datetime \<Rightarrow> datetime \<Rightarrow> bool" where
  "dt_le a b = (dt_less a b \<or> a = b)"

text \<open>
  The calendar of CPython's \<open>datetime\<close> module: \<open>_is_leap\<close>, \<open>_days_before_year\<close>,
  \<open>_days_before_month\<close>, \<open>_ymd2ord\<close> and \<open>_ord2ymd\<close>.
\<close>

definition is_leap :: "int \<Rightarrow> bool" where
  "is_leap year = (year mod 4 = 0 \<and> (year mod 100 \<noteq> 0 \<or> year mod 400 = 0))"

definition days_before_year :: "int \<Rightarrow> int" where
  "days_before_year year =
     (let y = year - 1 in y * 365 + y div 4 - y div 100 + y div 400)"

definition DAYS_IN_MONTH :: "int list" where
  "DAYS_IN_MONTH = [-1, 31, 28, 31, 30, 31, 30, 31, 31, 30, 31, 30, 31]"

definition DAYS_BEFORE_MONTH :: "int list" where
  "DAYS_BEFORE_MONTH = [-1, 0, 31, 59, 90, 120, 151, 181, 212, 243, 273, 304, 334]"

definition days_before_month :: "int \<Rightarrow> int \<Rightarrow> int" where
  "days_before_month year month =
     DAYS_BEFORE_MONTH ! nat month + (if month > 2 \<and> is_leap year then 1 else 0)"

definition ymd2ord :: "int \<Rightarrow> int \<Rightarrow> int \<Rightarrow> int" where
  "ymd2ord year month day = days_before_year year + days_before_month year month + day"

definition ord2ymd :: "int \<Rightarrow> int \<times> int \<times> int" where
  "ord2ymd n0 =
     (let n = n0 - 1;
          n400 = n div 146097; n = n mod 146097;
          year = n400 * 400 + 1;
          n100 = n div 36524; n = n mod 36524;
          n4 = n div 1461; n = n mod 1461;
          n1 = n div 365; n = n mod 365;
          year = year + n100 * 100 + n4 * 4 + n1
      in if n1 = 4 \<or> n100 = 4 then (year - 1, 12, 31)
         else
           let leapyear = (n1 = 3 \<and> (n4 \<noteq> 24 \<or> n100 = 3));
               month = (n + 50) div 32;
               preceding = DAYS_BEFORE_MONTH ! nat month + (if month > 2 \<and> leapyear then 1 else 0)
           in if preceding > n
              then let month = month - 1;
                       preceding = preceding
                         - (DAYS_IN_MONTH ! nat month + (if month = 2 \<and> leapyear then 1 else 0))
                   in (year, month, n - preceding + 1)
              else (year, month, n - preceding + 1))"

text \<open>
  \<open>datetime(year, month, day, hour, minute, second, microsecond)\<close>, for arguments in
  range (used to write examples down by their calendar date).
\<close>

definition datetime_of :: "int \<Rightarrow> int \<Rightarrow> int \<Rightarrow> int \<Rightarrow> int \<Rightarrow> int \<Rightarrow> int \<Rightarrow> datetime" where
  "datetime_of y mo d h mi s us =
     \<lparr>ordinal = ymd2ord y mo d, hour = h, minute = mi, second = s, microsecond = us\<rparr>"

text \<open>
  \<open>d.strftime('%d.%m.%Y %H:%M')\<close>: two digits for day, month, hour and minute, four for
  the year (years below 1000, which the platforms pad differently, are padded with zeros
  here).
\<close>

definition digit_char :: "int \<Rightarrow> nat" where
  "digit_char k = 48 + nat (k mod 10)"

definition two_digits :: "int \<Rightarrow> pystr" where
  "two_digits k = [digit_char (k div 10), digit_char k]"

definition four_digits :: "int \<Rightarrow> pystr" where
  "four_digits k =
     [digit_char (k div 1000), digit_char (k div 100), digit_char (k div 10), digit_char k]"

definition strftime :: "datetime \<Rightarrow> pystr" where
  "strftime d =
     (case ord2ymd (ordinal d) of
        (year, month, day) \<Rightarrow>
          two_digits day @ [46] @ two_digits month @ [46] @ four_digits year @ [32]
          @ two_digits (hour d) @ [58] @ two_digits (minute d))"

section \<open>bot.py: the profile store\<close>

text \<open>
  A user profile, the dictionary \<open>users_data[str(user_id)]\<close>. The code reads these keys
  with \<open>user_data.get(key, default)\<close>; \<open>None\<close> says that the key is absent.
\<close>

record user_data =
  topics :: "pystr list option"
  digest_enabled :: "bool option"
  digest_time :: "pystr option"
  digest_frequency :: "pystr option"
  sources :: "pystr list option"
  user_language :: "pystr option"
  region :: "pystr option"

text \<open>\<open>d.get(key, default)\<close>.\<close>

definition get_or :: "'a option \<Rightarrow> 'a \<Rightarrow> 'a" where
  "get_or v dflt = (case v of None \<Rightarrow> dflt | Some x \<Rightarrow> x)"

text \<open>The profile \<open>get_user_data\<close> creates at the first access of a user.\<close>

definition default_user_data :: user_data where
  "default_user_data =
     \<lparr>topics = Some [], digest_enabled = Some False, digest_time = Some (ascii ''09:00''),
      digest_frequency = Some (ascii ''daily''), sources = Some [ascii ''rss''],
      user_language = Some (ascii ''ru''), region = Some (ascii ''ru'')\<rparr>"

section \<open>scheduler.py\<close>

text \<open>
  The job registry of the \<open>schedule\<close> library, in the order of registration. A job is
  \<open>schedule.every().<unit>.at(t).do(self._send_digest_job, user_id).tag(f"user_{user_id}")\<close>;
  its tag is kept as the user id it is made of.
\<close>

datatype job_unit = Day | Monday | Tuesday | Wednesday | Thursday | Friday

record job =
  unit :: job_unit
  at_time :: pystr
  job_arg :: int
  tag :: int

text \<open>The state the scheduler and the bot share: profiles by user id, and the jobs.\<close>

record bot_state =
  users_data :: "(int \<times> user_data) list"
  jobs :: "job list"

text \<open>
  \<open>get_user_data\<close> of bot.py: the profile of the user, created with the default values
  (and put last in \<open>users_data\<close>) at the first access. The dictionary is keyed by
  \<open>str(user_id)\<close>; the model keeps the integer.
\<close>

definition get_user_data :: "bot_state \<Rightarrow> int \<Rightarrow> user_data \<times> bot_state" where
  "get_user_data st user_id =
     (case map_of (users_data st) user_id of
        None \<Rightarrow>
          (default_user_data,
           st\<lparr>users_data := users_data st @ [(user_id, default_user_data)]\<rparr>)
      | Some ud \<Rightarrow> (ud, st))"

text \<open>\<open>_remove_user_jobs\<close>: \<open>schedule.clear(f"user_{user_id}")\<close>.\<close>

definition remove_user_jobs :: "int \<Rightarrow> job list \<Rightarrow> job list" where
  "remove_user_jobs user_id js = filter (\<lambda>j. tag j \<noteq> user_id) js"

text \<open>
  \<open>hour, minute = map(int, digest_time.split(':'))\<close> and \<open>dt_time(hour, minute)\<close> of
  \<open>schedule_user_digest\<close>: exactly two parts, both integers, in the range of a time.
\<close>

definition parse_time_strict :: "pystr \<Rightarrow> py_error + int \<times> int" where
  "parse_time_strict time_str =
     (case split_sep 58 time_str of
        [hs, ms] \<Rightarrow>
          (case py_int hs of
             Inl e \<Rightarrow> Inl e
           | Inr h \<Rightarrow>
               (case py_int ms of
                  Inl e \<Rightarrow> Inl e
                | Inr m \<Rightarrow>
                    if 0 \<le> h \<and> h < 24 \<and> 0 \<le> m \<and> m < 60
                    then Inr (h, m) else Inl ValueError))
      | _ \<Rightarrow> Inl ValueError)"

definition new_job :: "job_unit \<Rightarrow> pystr \<Rightarrow> int \<Rightarrow> job" where
  "new_job u t user_id = \<lparr>unit = u, at_time = t, job_arg = user_id, tag = user_id\<rparr>"

text \<open>
  \<open>schedule_user_digest\<close>. The parameter \<open>at_ok\<close> is the format check of the library's
  \<open>Job.at\<close>, which raises where it fails; every exception after the enabled check is
  caught and logged, and leaves the registry as it is at that point.
\<close>

definition schedule_user_digest ::
  "(pystr \<Rightarrow> bool) \<Rightarrow> int \<Rightarrow> user_data \<Rightarrow> job list \<Rightarrow> job list" where
  "schedule_user_digest at_ok user_id ud js =
     (if \<not> get_or (digest_enabled ud) False then js
      else
        let time_str = get_or (digest_time ud) (ascii ''09:00'');
            frequency = get_or (digest_frequency ud) (ascii ''daily'')
        in case parse_time_strict time_str of
             Inl e \<Rightarrow> js
           | Inr hm \<Rightarrow>
               let js1 = remove_user_jobs user_id js
               in if \<not> at_ok time_str then js1
                  else if frequency = ascii ''daily''
                  then js1 @ [new_job Day time_str user_id]
                  else if frequency = ascii ''weekly''
                  then js1 @ [new_job Monday time_str user_id]
                  else if frequency = ascii ''weekdays''
                  then js1 @ [new_job Monday time_str user_id,
                              new_job Tuesday time_str user_id,
                              new_job Wednesday time_str user_id,
                              new_job Thursday time_str user_id,
                              new_job Friday time_str user_id]
                  else js1)"

text \<open>
  \<open>update_all_schedules\<close>: \<open>schedule.clear()\<close>, then \<open>schedule_user_digest\<close> for every
  profile in the order of the dictionary.
\<close>

definition update_all_schedules :: "(pystr \<Rightarrow> bool) \<Rightarrow> bot_state \<Rightarrow> bot_state" where
  "update_all_schedules at_ok st =
     st\<lparr>jobs := foldl (\<lambda>js (user_id, ud). schedule_user_digest at_ok user_id ud js) []
                   (users_data st)\<rparr>"

text \<open>
  \<open>int(digest_time.split(':')[0])\<close> and \<open>int(digest_time.split(':')[1])\<close> of
  \<open>get_next_digest_time\<close>, then the \<open>replace\<close> they are the arguments of.
\<close>

definition hour_of :: "pystr \<Rightarrow> py_error + int" where
  "hour_of time_str =
     (case split_sep 58 time_str of [] \<Rightarrow> Inl IndexError | h # _ \<Rightarrow> py_int h)"

definition minute_of :: "pystr \<Rightarrow> py_error + int" where
  "minute_of time_str =
     (case split_sep 58 time_str of _ # m # _ \<Rightarrow> py_int m | _ \<Rightarrow> Inl IndexError)"

definition replace_time :: "datetime \<Rightarrow> pystr \<Rightarrow> py_error + datetime" where
  "replace_time d time_str =
     (case hour_of time_str of
        Inl e \<Rightarrow> Inl e
      | Inr h \<Rightarrow>
          (case minute_of time_str of
             Inl e \<Rightarrow> Inl e
           | Inr m \<Rightarrow> replace_hm d h m))"

text \<open>
  The three branches of \<open>get_next_digest_time\<close> that compute \<open>next_time\<close> from
  \<open>now = datetime.now()\<close>. With another frequency no branch assigns \<open>next_time\<close>, and the
  \<open>return\<close> raises.
\<close>

definition next_time :: "pystr \<Rightarrow> pystr \<Rightarrow> datetime \<Rightarrow> py_error + datetime" where
  "next_time frequency time_str now =
     (if frequency = ascii ''daily''
      then (case replace_time now time_str of
              Inl e \<Rightarrow> Inl e
            | Inr nt \<Rightarrow> if dt_le nt now then add_days nt 1 else Inr nt)
      else if frequency = ascii ''weekly''
      then (let days_ahead = 7 - weekday now;
                days_ahead = (if days_ahead = 7 then 0 else days_ahead)
            in case add_days now days_ahead of
                 Inl e \<Rightarrow> Inl e
               | Inr nt \<Rightarrow> replace_time nt time_str)
      else if frequency = ascii ''weekdays''
      then (let days_ahead = 1 - weekday now;
                days_ahead = (if days_ahead \<le> 0 then days_ahead + 5 else days_ahead)
            in case add_days now days_ahead of
                 Inl e \<Rightarrow> Inl e
               | Inr nt \<Rightarrow> replace_time nt time_str)
      else Inl UnboundLocalError)"

text \<open>The two fixed answers of \<open>get_next_digest_time\<close>, as code points.\<close>

definition msg_disabled :: pystr where
  "msg_disabled =
     [0x414, 0x430, 0x439, 0x434, 0x436, 0x435, 0x441, 0x442, 0x20,
      0x43E, 0x442, 0x43A, 0x43B, 0x44E, 0x447, 0x435, 0x43D]"

definition msg_error :: pystr where
  "msg_error =
     [0x41E, 0x448, 0x438, 0x431, 0x43A, 0x430, 0x20,
      0x440, 0x430, 0x441, 0x447, 0x435, 0x442, 0x430]"

text \<open>
  \<open>get_next_digest_time\<close>, with the clock reading \<open>now\<close>; the state it returns is the
  one \<open>get_user_data\<close> leaves.
\<close>

definition get_next_digest_time :: "bot_state \<Rightarrow> int \<Rightarrow> datetime \<Rightarrow> pystr \<times> bot_state" where
  "get_next_digest_time st user_id now =
     (case get_user_data st user_id of
        (ud, st1) \<Rightarrow>
          if \<not> get_or (digest_enabled ud) False then (msg_disabled, st1)
          else
            (case next_time (get_or (digest_frequency ud) (ascii ''daily''))
                    (get_or (digest_time ud) (ascii ''09:00'')) now of
               Inl e \<Rightarrow> (msg_error, st1)
             | Inr nt \<Rightarrow> (strftime nt, st1)))"

section \<open>bot.py: \<open>update_user_data\<close>\<close>

text \<open>
  The dictionary \<open>data\<close> of an update: for each key, the new value when the key is in
  \<open>data\<close>.
\<close>

record user_update =
  u_topics :: "pystr list option"
  u_digest_enabled :: "bool option"
  u_digest_time :: "pystr option"
  u_digest_frequency :: "pystr option"
  u_sources :: "pystr list option"
  u_language :: "pystr option"
  u_region :: "pystr option"

definition no_update :: user_update where
  "no_update =
     \<lparr>u_topics = None, u_digest_enabled = None, u_digest_time = None,
      u_digest_frequency = None, u_sources = None, u_language = None, u_region = None\<rparr>"

text \<open>\<open>key in data\<close>.\<close>

definition has_key :: "'a option \<Rightarrow> bool" where
  "has_key v = (case v of None \<Rightarrow> False | Some x \<Rightarrow> True)"

text \<open>\<open>d.update(data)\<close> on a profile: the keys of \<open>data\<close> are overwritten.\<close>

definition overwrite :: "'a option \<Rightarrow> 'a option \<Rightarrow> 'a option" where
  "overwrite old new = (case new of None \<Rightarrow> old | Some v \<Rightarrow> Some v)"

definition dict_update :: "user_data \<Rightarrow> user_update \<Rightarrow> user_data" where
  "dict_update ud data =
     \<lparr>topics = overwrite (topics ud) (u_topics data),
      digest_enabled = overwrite (digest_enabled ud) (u_digest_enabled data),
      digest_time = overwrite (digest_time ud) (u_digest_time data),
      digest_frequency = overwrite (digest_frequency ud) (u_digest_frequency data),
      sources = overwrite (sources ud) (u_sources data),
      user_language = overwrite (user_language ud) (u_language data),
      region = overwrite (region ud) (u_region data)\<rparr>"

text \<open>\<open>users_data[key] = value\<close>: an old key keeps its place, a new one goes last.\<close>

fun dict_set :: "int \<Rightarrow> user_data \<Rightarrow> (int \<times> user_data) list \<Rightarrow> (int \<times> user_data) list" where
  "dict_set k v [] = [(k, v)]"
| "dict_set k v ((k', v') # rest) =
     (if k' = k then (k, v) # rest else (k', v') # dict_set k v rest)"

text \<open>
  \<open>update_user_data\<close>: \<open>self.users_data[str(user_id)]\<close> raises \<open>KeyError\<close> for an
  unknown user; when one of the three scheduling keys is in \<open>data\<close>, the updated profile
  goes to \<open>schedule_user_digest\<close>.
\<close>

definition update_user_data ::
  "(pystr \<Rightarrow> bool) \<Rightarrow> bot_state \<Rightarrow> int \<Rightarrow> user_update \<Rightarrow> py_error + bot_state" where
  "update_user_data at_ok st user_id data =
     (case map_of (users_data st) user_id of
        None \<Rightarrow> Inl KeyError
      | Some old \<Rightarrow>
          let ud = dict_update old data;
              st1 = st\<lparr>users_data := dict_set user_id ud (users_data st)\<rparr>
          in if has_key (u_digest_enabled data) \<or> has_key (u_digest_time data)
                \<or> has_key (u_digest_frequency data)
             then (case get_user_data st1 user_id of
                     (ud1, st2) \<Rightarrow>
                       Inr (st2\<lparr>jobs := schedule_user_digest at_ok user_id ud1 (jobs st2)\<rparr>))
             else Inr st1)"

section \<open>news\_utils.py: NewsFetcher\<close>

text \<open>
  The filter of \<open>get_news_by_topics\<close>, on the list \<open>all_news\<close> its two fetches gave:
  an item is kept when a lower-cased topic occurs in its lower-cased title or
  description; at most \<open>limit\<close> items are returned.
\<close>

definition topic_match :: "(pystr \<Rightarrow> pystr) \<Rightarrow> pystr list \<Rightarrow> news \<Rightarrow> py_error + bool" where
  "topic_match lower ts n =
     (case title n of
        None \<Rightarrow> Inl KeyError
      | Some t \<Rightarrow>
          (case str_lower lower t of
             Inl e \<Rightarrow> Inl e
           | Inr title_lower \<Rightarrow>
               (case str_lower lower (case description n of None \<Rightarrow> PyStr [] | Some d \<Rightarrow> d) of
                  Inl e \<Rightarrow> Inl e
                | Inr description_lower \<Rightarrow>
                    Inr (list_ex (\<lambda>topic. py_in (lower topic) title_lower
                                         \<or> py_in (lower topic) description_lower) ts))))"

fun get_news_by_topics_loop ::
  "(pystr \<Rightarrow> pystr) \<Rightarrow> pystr list \<Rightarrow> news list \<Rightarrow> news list \<Rightarrow> py_error + news list" where
  "get_news_by_topics_loop lower ts [] filtered_news = Inr filtered_news"
| "get_news_by_topics_loop lower ts (n # rest) filtered_news =
     (case topic_match lower ts n of
        Inl e \<Rightarrow> Inl e
      | Inr hit \<Rightarrow>
          get_news_by_topics_loop lower ts rest
            (if hit then filtered_news @ [n] else filtered_news))"

definition get_news_by_topics ::
  "(pystr \<Rightarrow> pystr) \<Rightarrow> pystr list \<Rightarrow> news list \<Rightarrow> nat \<Rightarrow> py_error + news list" where
  "get_news_by_topics lower ts all_news limit =
     (case get_news_by_topics_loop lower ts all_news [] of
        Inl e \<Rightarrow> Inl e
      | Inr filtered_news \<Rightarrow> Inr (take limit filtered_news))"

section \<open>bot.py: the aggregation\<close>

text \<open>
  What the source adapters return in one run of \<open>fetch_news\<close>: the three fetches of
  \<open>fetch_news\<close> itself, and the two that \<open>get_news_by_topics\<close> makes again. The adapters
  catch their own exceptions, so each call returns a list, of any length.
\<close>

record fetched =
  rss_news :: "news list"
  api_news :: "news list"
  mediastack_news :: "news list"
  topics_rss_news :: "news list"
  topics_api_news :: "news list"

text \<open>The body of the \<open>try\<close> of \<open>fetch_news\<close>, up to the \<open>return\<close>.\<close>

definition fetch_news_body ::
  "(pystr \<Rightarrow> pystr) \<Rightarrow> user_data \<Rightarrow> fetched \<Rightarrow> py_error + news list" where
  "fetch_news_body lower ud f =
     (let ts = get_or (topics ud) [];
          srcs = get_or (sources ud) [ascii ''rss''];
          all_news = (if ascii ''rss'' \<in> set srcs then rss_news f else [])
                     @ (if ascii ''api'' \<in> set srcs then api_news f @ mediastack_news f else [])
      in case (if ts \<noteq> []
               then (case get_news_by_topics lower ts (topics_rss_news f @ topics_api_news f) 15 of
                       Inl e \<Rightarrow> Inl e
                     | Inr filtered_news \<Rightarrow> Inr (all_news @ filtered_news))
               else Inr all_news) of
           Inl e \<Rightarrow> Inl e
         | Inr all_news \<Rightarrow>
             (case remove_duplicates lower all_news of
                Inl e \<Rightarrow> Inl e
              | Inr unique_news \<Rightarrow>
                  (case filter_news lower unique_news None None of
                     Inl e \<Rightarrow> Inl e
                   | Inr final_news \<Rightarrow> Inr (take 10 final_news))))"

text \<open>\<open>fetch_news\<close>: any exception of the body is logged and answered with \<open>[]\<close>.\<close>

definition fetch_news :: "(pystr \<Rightarrow> pystr) \<Rightarrow> user_data \<Rightarrow> fetched \<Rightarrow> news list" where
  "fetch_news lower ud f =
     (case fetch_news_body lower ud f of Inl e \<Rightarrow> [] | Inr final_news \<Rightarrow> final_news)"

section \<open>bot.py: the search by topics\<close>

text \<open>
  The loop of \<open>search_command\<close> over the topics, on the deduplicated \<open>all_news\<close>:
  \<open>filtered = self.news_filter.filter_news(all_news, keywords=[t])\<close>, and
  \<open>groups.append((t, filtered[:5]))\<close> when \<open>filtered\<close> is not empty.
\<close>

fun search_groups ::
  "(pystr \<Rightarrow> pystr) \<Rightarrow> news list \<Rightarrow> pystr list \<Rightarrow> (pystr \<times> news list) list
     \<Rightarrow> py_error + (pystr \<times> news list) list" where
  "search_groups lower all_news [] groups = Inr groups"
| "search_groups lower all_news (t # ts) groups =
     (case filter_news lower all_news (Some [t]) None of
        Inl e \<Rightarrow> Inl e
      | Inr filtered \<Rightarrow>
          search_groups lower all_news ts
            (if filtered \<noteq> [] then groups @ [(t, take 5 filtered)] else groups))"

section \<open>news\_utils.py: the RSS parser\<close>

text \<open>
  An \<open>xml.etree.ElementTree.Element\<close>: tag, text (\<open>None\<close> when the element has none)
  and children.
\<close>

datatype element = Element (etag: pystr) (etext: "pystr option") (children: "element list")

text \<open>\<open>item.find(tag)\<close>: the first child with that tag.\<close>

definition find_child :: "pystr \<Rightarrow> element \<Rightarrow> element option" where
  "find_child t item = find (\<lambda>c. etag c = t) (children item)"

text \<open>
  \<open>a or b\<close> on the results of two \<open>find\<close> calls: an element without children is
  false, as \<open>None\<close> is.
\<close>

definition elem_or :: "element option \<Rightarrow> element option \<Rightarrow> element option" where
  "elem_or a b = (case a of None \<Rightarrow> b | Some e \<Rightarrow> if children e \<noteq> [] then Some e else b)"

text \<open>\<open>elem.text.strip() if elem.text else None\<close>, for \<open>elem\<close> that may be \<open>None\<close>.\<close>

definition stripped_text :: "element option \<Rightarrow> pystr option" where
  "stripped_text elem =
     (case elem of
        None \<Rightarrow> None
      | Some e \<Rightarrow>
          (case etext e of None \<Rightarrow> None | Some s \<Rightarrow> if s = [] then None else Some (strip s)))"

text \<open>
  The library functions the parser calls: \<open>urljoin\<close> and \<open>urlparse(url).netloc\<close> of
  \<open>urllib.parse\<close>, which can raise, and \<open>datetime.strptime(date_str, fmt)\<close>, \<open>None\<close>
  where it raises.
\<close>

record library =
  urljoin :: "pystr \<Rightarrow> pystr \<Rightarrow> py_error + pystr"
  netloc :: "pystr \<Rightarrow> py_error + pystr"
  strptime :: "pystr \<Rightarrow> pystr \<Rightarrow> datetime option"

text \<open>\<open>_parse_date\<close>: the first format that parses, else the current time.\<close>

definition date_formats :: "pystr list" where
  "date_formats =
     [ascii ''%Y-%m-%dT%H:%M:%SZ'', ascii ''%Y-%m-%dT%H:%M:%S.%fZ'',
      ascii ''%a, %d %b %Y %H:%M:%S %Z'', ascii ''%Y-%m-%d %H:%M:%S'']"

fun first_format :: "library \<Rightarrow> pystr \<Rightarrow> pystr list \<Rightarrow> datetime option" where
  "first_format lib date_str [] = None"
| "first_format lib date_str (fmt # fmts) =
     (case strptime lib date_str fmt of
        Some dt \<Rightarrow> Some dt
      | None \<Rightarrow> first_format lib date_str fmts)"

definition parse_date :: "library \<Rightarrow> datetime \<Rightarrow> pystr option \<Rightarrow> pystr" where
  "parse_date lib now date_str =
     (case date_str of
        None \<Rightarrow> strftime now
      | Some s \<Rightarrow>
          if s = [] then strftime now
          else (case first_format lib s date_formats of
                  Some dt \<Rightarrow> strftime dt
                | None \<Rightarrow> strftime now))"

text \<open>\<open>_extract_domain\<close>.\<close>

definition extract_domain :: "library \<Rightarrow> pystr \<Rightarrow> pystr" where
  "extract_domain lib u =
     (case netloc lib u of
        Inl e \<Rightarrow> ascii ''Unknown''
      | Inr domain \<Rightarrow> if prefix (ascii ''www.'') domain then drop 4 domain else domain)"

text \<open>\<open>x or ''\<close> on an optional string.\<close>

definition or_empty :: "pystr option \<Rightarrow> pystr" where
  "or_empty x = (case x of None \<Rightarrow> [] | Some s \<Rightarrow> s)"

text \<open>
  \<open>_parse_rss_item\<close>. The link is read before the title is checked, so an exception of
  \<open>urljoin\<close> also ends in \<open>None\<close>.
\<close>

definition dc_date :: pystr where
  "dc_date = ascii ''{http://purl.org/dc/elements/1.1/}date''"

definition parse_rss_item ::
  "library \<Rightarrow> datetime \<Rightarrow> element \<Rightarrow> pystr \<Rightarrow> pystr \<Rightarrow> news option" where
  "parse_rss_item lib now item feed_url lang =
     (let title_v = stripped_text (find_child (ascii ''title'') item);
          description_v = stripped_text
            (elem_or (find_child (ascii ''description'') item) (find_child (ascii ''summary'') item));
          link = stripped_text (find_child (ascii ''link'') item);
          url_v = (case link of
                     None \<Rightarrow> Inr None
                   | Some u \<Rightarrow>
                       if u \<noteq> [] \<and> \<not> prefix (ascii ''http'') u
                       then (case urljoin lib feed_url u of
                               Inl e \<Rightarrow> Inl e | Inr j \<Rightarrow> Inr (Some j))
                       else Inr (Some u));
          date_str = stripped_text
            (elem_or (elem_or (find_child (ascii ''pubDate'') item)
                        (find_child (ascii ''published'') item))
               (find_child dc_date item))
      in case url_v of
           Inl e \<Rightarrow> None
         | Inr url_v \<Rightarrow>
             if or_empty title_v = [] then None
             else Some \<lparr>title = Some (PyStr (or_empty title_v)),
                        description = Some (PyStr (or_empty description_v)),
                        url = PyStr (or_empty url_v),
                        date = PyStr (parse_date lib now date_str),
                        source = PyStr (extract_domain lib feed_url),
                        language = PyStr lang\<rparr>)"

text \<open>
  The loop of \<open>fetch_rss_news\<close> over the elements of one feed: what
  \<open>_parse_rss_item\<close> returns is appended unless it is \<open>None\<close>.
\<close>

fun parse_items ::
  "library \<Rightarrow> datetime \<Rightarrow> element list \<Rightarrow> pystr \<Rightarrow> pystr \<Rightarrow> news list \<Rightarrow> news list" where
  "parse_items lib now [] feed_url lang news_list = news_list"
| "parse_items lib now (item # items) feed_url lang news_list =
     (case parse_rss_item lib now item feed_url lang of
        None \<Rightarrow> parse_items lib now items feed_url lang news_list
      | Some news_item \<Rightarrow> parse_items lib now items feed_url lang (news_list @ [news_item]))"

section \<open>Specification functions\<close>

text \<open>
  An item is well formed for the filter when its title is a string and its description
  is a string or absent: then \<open>item_text\<close> raises nothing.
\<close>

definition wf_item :: "news \<Rightarrow> bool" where
  "wf_item n =
     ((case title n of Some (PyStr _) \<Rightarrow> True | _ \<Rightarrow> False)
      \<and> (case description n of Some PyNone \<Rightarrow> False | _ \<Rightarrow> True))"

text \<open>The items the filter keeps, as a predicate on one item.\<close>

definition keeps ::
  "(pystr \<Rightarrow> pystr) \<Rightarrow> pystr list option \<Rightarrow> pystr list option \<Rightarrow> news \<Rightarrow> bool" where
  "keeps lower keywords exclude_keywords n =
     (case item_text lower n of
        Inl e \<Rightarrow> False
      | Inr text \<Rightarrow>
          \<not> blacklisted text
          \<and> \<not> (truthy exclude_keywords \<and> any_keyword lower (elems exclude_keywords) text)
          \<and> (\<not> truthy keywords \<or> any_keyword lower (elems keywords) text))"

text \<open>The first item of each normalised title, given the titles already seen.\<close>

fun firsts :: "(news \<Rightarrow> py_error + pystr) \<Rightarrow> (py_error + pystr) set \<Rightarrow> news list \<Rightarrow> news list" where
  "firsts key seen [] = []"
| "firsts key seen (n # rest) =
     (if key n \<in> seen then firsts key seen rest else n # firsts key (insert (key n) seen) rest)"

text \<open>The group one topic contributes to the search.\<close>

definition topic_group :: "(pystr \<Rightarrow> pystr) \<Rightarrow> news list \<Rightarrow> pystr \<Rightarrow> (pystr \<times> news list) list" where
  "topic_group lower all_news t =
     (case filter_news lower all_news (Some [t]) None of
        Inl e \<Rightarrow> []
      | Inr filtered \<Rightarrow> if filtered \<noteq> [] then [(t, take 5 filtered)] else [])"

text \<open>An element without a title: no child \<open>title\<close>, or one whose text is missing,
  empty or whitespace only.\<close>

definition no_title :: "element \<Rightarrow> bool" where
  "no_title item =
     (case find_child (ascii ''title'') item of
        None \<Rightarrow> True
      | Some e \<Rightarrow> (case etext e of None \<Rightarrow> True | Some s \<Rightarrow> list_all isspace s))"

section \<open>Example data\<close>

definition item_sale :: news where
  "item_sale = \<lparr>title = Some (PyStr (ascii ''Big SALE'')), description = Some (PyStr (ascii ''now'')),
     url = PyStr [], date = PyStr [], source = PyStr (ascii ''a''), language = PyStr (ascii ''en'')\<rparr>"

definition item_btc :: news where
  "item_btc = \<lparr>title = Some (PyStr (ascii ''Bitcoin rallies'')), description = None,
     url = PyStr [], date = PyStr [], source = PyStr (ascii ''b''), language = PyStr (ascii ''en'')\<rparr>"

definition item_btc2 :: news where
  "item_btc2 = \<lparr>title = Some (PyStr (ascii '' bitcoin rallies '')), description = Some (PyStr (ascii ''again'')),
     url = PyStr [], date = PyStr [], source = PyStr (ascii ''c''), language = PyStr (ascii ''en'')\<rparr>"

text \<open>A profile with digests on, and the registry after it was scheduled.\<close>

definition profile :: "string \<Rightarrow> string \<Rightarrow> user_data" where
  "profile freq t =
     default_user_data\<lparr>digest_enabled := Some True, digest_time := Some (ascii t),
       digest_frequency := Some (ascii freq)\<rparr>"

definition state_of :: "user_data \<Rightarrow> bot_state" where
  "state_of ud = \<lparr>users_data = [(7, ud)], jobs = []\<rparr>"

definition armed_state :: bot_state where
  "armed_state =
     \<lparr>users_data = [(7, profile ''daily'' ''09:00'')],
      jobs = [new_job Day (ascii ''09:00'') 7]\<rparr>"

definition disable_digest :: user_update where
  "disable_digest = no_update\<lparr>u_digest_enabled := Some False\<rparr>"

text \<open>A stand-in for the library, and two feed elements: one titled, one blank.\<close>

definition lib_example :: library where
  "lib_example =
     \<lparr>urljoin = (\<lambda>base u. Inr (base @ u)), netloc = (\<lambda>u. Inr u), strptime = (\<lambda>s fmt. None)\<rparr>"

definition elem_hello :: element where
  "elem_hello = Element (ascii ''item'') None [Element (ascii ''title'') (Some (ascii '' Hello '')) []]"

definition elem_blank :: element where
  "elem_blank =
     Element (ascii ''item'') None
       [Element (ascii ''title'') (Some (ascii ''  '')) [],
        Element (ascii ''link'') (Some (ascii ''/a'')) []]"

section \<open>Properties of the filter\<close>

lemma filter_news_loop_step:
  "filter_news_loop lower kw ex (n # rest) acc =
     (case item_text lower n of
        Inl e \<Rightarrow> Inl e
      | Inr tx \<Rightarrow> filter_news_loop lower kw ex rest (if keeps lower kw ex n then acc @ [n] else acc))"
  by (cases "item_text lower n") (auto simp: keeps_def)

lemma keeps_item_text:
  "keeps lower kw ex n \<Longrightarrow> \<exists>tx. item_text lower n = Inr tx \<and> \<not> blacklisted tx"
  by (auto simp: keeps_def split: sum.splits)

lemma filter_news_loop_eq:
  "filter_news_loop lower kw ex xs acc = Inr out
     \<Longrightarrow> out = acc @ filter (keeps lower kw ex) xs"
proof (induction xs arbitrary: acc)
  case Nil
  then show ?case by simp
next
  case (Cons n rest)
  from Cons.prems obtain tx where tx: "item_text lower n = Inr tx"
    by (auto simp: filter_news_loop_step simp del: filter_news_loop.simps split: sum.splits)
  show ?case
  proof (cases "keeps lower kw ex n")
    case True
    with Cons.prems tx have "filter_news_loop lower kw ex rest (acc @ [n]) = Inr out"
      by (simp add: filter_news_loop_step del: filter_news_loop.simps)
    from Cons.IH [OF this] True show ?thesis by simp
  next
    case False
    with Cons.prems tx have "filter_news_loop lower kw ex rest acc = Inr out"
      by (simp add: filter_news_loop_step del: filter_news_loop.simps)
    from Cons.IH [OF this] False show ?thesis by simp
  qed
qed

lemma filter_news_loop_raises_nothing:
  "list_all wf_item xs \<Longrightarrow> \<exists>out. filter_news_loop lower kw ex xs acc = Inr out"
proof (induction xs arbitrary: acc)
  case Nil
  then show ?case by simp
next
  case (Cons n rest)
  from Cons.prems have "wf_item n" by simp
  then obtain tx where "item_text lower n = Inr tx"
    by (auto simp: wf_item_def item_text_def str_lower_def
        split: option.splits pyval.splits)
  moreover from Cons.prems have "list_all wf_item rest" by simp
  ultimately show ?case using Cons.IH by simp
qed

lemma filter_news_eq:
  "filter_news lower xs kw ex = Inr out \<Longrightarrow> out = filter (keeps lower kw ex) xs"
  using filter_news_loop_eq [of lower kw ex xs "[]" out] by (simp add: filter_news_def)

text \<open>\<open>py_in\<close> is the contiguous-sublist relation of the library.\<close>

lemma py_in_sublist: "py_in k s \<longleftrightarrow> sublist k s"
  by (induction s) (auto simp: sublist_Cons_right)

lemma count_list_filter_le: "count_list (filter P xs) x \<le> count_list xs x"
  by (induction xs) auto

text \<open>
  C5. Whatever the include and exclude keyword arguments are (\<open>None\<close> included), an
  item whose text (lower-cased title, a space, lower-cased description, as the filter
  builds it) contains a term of the fixed blacklist is not in the output of
  \<open>filter_news\<close>.
\<close>

theorem filter_news_drops_blacklisted:
  "filter_news lower news_list keywords exclude_keywords = Inr out
     \<Longrightarrow> item_text lower n = Inr tx \<Longrightarrow> blacklisted tx \<Longrightarrow> n \<notin> set out"
proof
  assume res: "filter_news lower news_list keywords exclude_keywords = Inr out"
    and tx: "item_text lower n = Inr tx" and bl: "blacklisted tx" and mem: "n \<in> set out"
  from filter_news_eq [OF res] mem have "keeps lower keywords exclude_keywords n" by simp
  with tx bl show False by (simp add: keeps_def)
qed

lemma ex_text_sale: "item_text lower_basic item_sale = Inr (ascii ''big sale now'')"
  by (simp add: item_text_def item_sale_def str_lower_def lower_basic_def lower_cp_def ascii_def)

lemma ex_text_btc: "item_text lower_basic item_btc = Inr (ascii ''bitcoin rallies '')"
  by (simp add: item_text_def item_btc_def str_lower_def lower_basic_def lower_cp_def ascii_def)

lemma ex_blacklisted_sale: "blacklisted (ascii ''big sale now'')"
  by (simp add: blacklisted_def keywords_blacklist_def ascii_def)

lemma ex_not_blacklisted_btc: "\<not> blacklisted (ascii ''bitcoin rallies '')"
  by (simp add: blacklisted_def keywords_blacklist_def ascii_def)

lemma ex_filter: "filter_news lower_basic [item_sale, item_btc] None None = Inr [item_btc]"
  by (simp add: filter_news_def ex_text_sale ex_text_btc ex_blacklisted_sale ex_not_blacklisted_btc truthy_def)

theorem filter_news_drops_blacklisted_witness:
  "filter_news lower_basic [item_sale, item_btc] None None = Inr [item_btc]
   \<and> item_text lower_basic item_sale = Inr (ascii ''big sale now'')
   \<and> blacklisted (ascii ''big sale now'')
   \<and> item_sale \<notin> set [item_btc]"
  using filter_news_drops_blacklisted [OF ex_filter ex_text_sale ex_blacklisted_sale] ex_text_sale ex_blacklisted_sale ex_filter by simp

text \<open>
  C10. The output of \<open>filter_news\<close> is a subsequence of its input: the items are
  items of the input, none occurs more often than in the input, and the input order is
  kept.
\<close>

theorem filter_news_subseq:
  "filter_news lower news_list keywords exclude_keywords = Inr out
     \<Longrightarrow> subseq out news_list \<and> set out \<subseteq> set news_list
         \<and> (\<forall>x. count_list out x \<le> count_list news_list x)"
proof -
  assume "filter_news lower news_list keywords exclude_keywords = Inr out"
  from filter_news_eq [OF this] show ?thesis
    by (simp add: count_list_filter_le)
qed

theorem filter_news_subseq_witness:
  "filter_news lower_basic [item_sale, item_btc] None None = Inr [item_btc]
   \<and> subseq [item_btc] [item_sale, item_btc]
   \<and> set [item_btc] \<subseteq> set [item_sale, item_btc]
   \<and> (\<forall>x. count_list [item_btc] x \<le> count_list [item_sale, item_btc] x)"
  using filter_news_subseq [OF ex_filter] ex_filter by simp

section \<open>Properties of the deduplication\<close>

lemma remove_duplicates_loop_eq:
  "remove_duplicates_loop lower xs seen unique = Inr out
     \<Longrightarrow> out = unique @ firsts (norm_title lower) (Inr ` seen) xs
         \<and> (\<forall>n\<in>set xs. \<exists>k. norm_title lower n = Inr k)"
proof (induction xs arbitrary: seen unique)
  case Nil
  then show ?case by simp
next
  case (Cons n rest)
  from Cons.prems obtain t where t: "norm_title lower n = Inr t"
    by (cases "norm_title lower n") auto
  show ?case
  proof (cases "t \<in> seen")
    case True
    with Cons.prems t have "remove_duplicates_loop lower rest seen unique = Inr out"
      by simp
    from Cons.IH [OF this] True t show ?thesis by auto
  next
    case False
    with Cons.prems t
    have "remove_duplicates_loop lower rest (insert t seen) (unique @ [n]) = Inr out"
      by simp
    from Cons.IH [OF this] False t show ?thesis by auto
  qed
qed

lemma firsts_subseq: "subseq (firsts key seen xs) xs"
  by (induction xs arbitrary: seen) auto

lemma firsts_fresh: "m \<in> set (firsts key seen xs) \<Longrightarrow> key m \<notin> seen"
  by (induction xs arbitrary: seen) (auto split: if_splits)

lemma firsts_distinct: "distinct (map key (firsts key seen xs))"
  by (induction xs arbitrary: seen) (auto dest: firsts_fresh)

lemma firsts_find:
  "m \<in> set (firsts key seen xs) \<Longrightarrow> find (\<lambda>n. key n = key m) xs = Some m"
proof (induction xs arbitrary: seen)
  case Nil
  then show ?case by simp
next
  case (Cons n rest)
  show ?case
  proof (cases "key n \<in> seen")
    case True
    with Cons.prems have m: "m \<in> set (firsts key seen rest)" by simp
    with True have "key n \<noteq> key m" by (auto dest: firsts_fresh)
    with Cons.IH [OF m] show ?thesis by simp
  next
    case False
    show ?thesis
    proof (cases "m = n")
      case True
      then show ?thesis by simp
    next
      case neq: False
      with False Cons.prems have m: "m \<in> set (firsts key (insert (key n) seen) rest)"
        by simp
      then have "key n \<noteq> key m" by (auto dest: firsts_fresh)
      with Cons.IH [OF m] show ?thesis by simp
    qed
  qed
qed

lemma firsts_set: "set (firsts key seen xs) \<subseteq> set xs"
  by (induction xs arbitrary: seen) auto

lemma firsts_keys: "key ` set (firsts key seen xs) = key ` set xs - seen"
  by (induction xs arbitrary: seen) auto

text \<open>
  C4. The output of \<open>remove_duplicates\<close> is no longer than the input, is a
  subsequence of it in which every item is the first input item of its normalised title,
  and the normalised titles (lower-cased, then stripped) of the output are pairwise
  different.
\<close>

theorem remove_duplicates_first_seen:
  "remove_duplicates lower news_list = Inr out
     \<Longrightarrow> length out \<le> length news_list
         \<and> subseq out news_list
         \<and> (\<forall>m\<in>set out. find (\<lambda>n. norm_title lower n = norm_title lower m) news_list = Some m)
         \<and> (\<exists>keys. map (norm_title lower) out = map Inr keys \<and> distinct keys)"
proof -
  assume res: "remove_duplicates lower news_list = Inr out"
  let ?key = "norm_title lower"
  from res have out: "out = firsts ?key {} news_list"
    and ok: "\<forall>n\<in>set news_list. \<exists>k. ?key n = Inr k"
    using remove_duplicates_loop_eq [of lower news_list "{}" "[]" out]
    by (simp_all add: remove_duplicates_def)
  have sub: "subseq out news_list" by (simp add: out firsts_subseq)
  then have len: "length out \<le> length news_list" by (rule list_emb_length)
  have fnd: "\<forall>m\<in>set out. find (\<lambda>n. ?key n = ?key m) news_list = Some m"
    using firsts_find [of _ ?key "{}" news_list] by (simp add: out)
  have dist: "distinct (map ?key out)" by (simp add: out firsts_distinct)
  define ks where "ks = map (\<lambda>m. projr (?key m)) out"
  have "\<forall>m\<in>set out. \<exists>k. ?key m = Inr k"
    using ok firsts_set [of ?key "{}" news_list] by (auto simp: out)
  then have eq: "map ?key out = map Inr ks"
    by (auto simp: ks_def)
  with dist have "distinct (map (Inr :: pystr \<Rightarrow> py_error + pystr) ks)" by simp
  then have "distinct ks" by (simp add: distinct_map)
  with eq have "\<exists>keys. map ?key out = map Inr keys \<and> distinct keys" by blast
  with len sub fnd show ?thesis by simp
qed

lemma ex_norm_btc: "norm_title lower_basic item_btc = Inr (ascii ''bitcoin rallies'')"
  by (simp add: norm_title_def item_btc_def str_lower_def lower_basic_def lower_cp_def ascii_def strip_def isspace_def)

lemma ex_norm_btc2: "norm_title lower_basic item_btc2 = Inr (ascii ''bitcoin rallies'')"
  by (simp add: norm_title_def item_btc2_def str_lower_def lower_basic_def lower_cp_def ascii_def strip_def isspace_def)

lemma ex_norm_sale: "norm_title lower_basic item_sale = Inr (ascii ''big sale'')"
  by (simp add: norm_title_def item_sale_def str_lower_def lower_basic_def lower_cp_def ascii_def strip_def isspace_def)

lemma ex_dedup: "remove_duplicates lower_basic [item_btc, item_sale, item_btc2] = Inr [item_btc, item_sale]"
  by (simp add: remove_duplicates_def ex_norm_btc ex_norm_btc2 ex_norm_sale ascii_def)

theorem remove_duplicates_first_seen_witness:
  "remove_duplicates lower_basic [item_btc, item_sale, item_btc2] = Inr [item_btc, item_sale]
   \<and> length [item_btc, item_sale] \<le> length [item_btc, item_sale, item_btc2]
   \<and> subseq [item_btc, item_sale] [item_btc, item_sale, item_btc2]
   \<and> find (\<lambda>n. norm_title lower_basic n = norm_title lower_basic item_btc)
         [item_btc, item_sale, item_btc2] = Some item_btc
   \<and> find (\<lambda>n. norm_title lower_basic n = norm_title lower_basic item_sale)
         [item_btc, item_sale, item_btc2] = Some item_sale
   \<and> (\<exists>keys. map (norm_title lower_basic) [item_btc, item_sale] = map Inr keys \<and> distinct keys)"
  using remove_duplicates_first_seen [OF ex_dedup] ex_dedup by simp

section \<open>Evaluation of the calendar and of the time of day\<close>

lemmas calendar_defs = datetime_of_def ymd2ord_def days_before_year_def days_before_month_def
  DAYS_BEFORE_MONTH_def DAYS_IN_MONTH_def is_leap_def

lemma split_0900: "split_sep 58 (ascii ''09:00'') = [ascii ''09'', ascii ''00'']"
  by (simp add: ascii_def)

lemma py_int_09: "py_int (ascii ''09'') = Inr 9"
  by (simp add: ascii_def py_int_def int_space_def is_digit_def)

lemma py_int_00: "py_int (ascii ''00'') = Inr 0"
  by (simp add: ascii_def py_int_def int_space_def is_digit_def)

lemma replace_time_0900:
  "replace_time d (ascii ''09:00'')
     = Inr (d\<lparr>hour := 9, minute := 0, second := 0, microsecond := 0\<rparr>)"
  by (simp add: replace_time_def hour_of_def minute_of_def split_0900 py_int_09 py_int_00
      replace_hm_def)

lemma frequency_neq:
  "ascii ''weekly'' \<noteq> ascii ''daily''"
  "ascii ''weekdays'' \<noteq> ascii ''daily''"
  "ascii ''weekdays'' \<noteq> ascii ''weekly''"
  by (simp_all add: ascii_def)

lemma replace_time_fields:
  "replace_time d t = Inr nt
     \<Longrightarrow> ordinal nt = ordinal d \<and> 0 \<le> hour nt \<and> hour nt < 24 \<and> 0 \<le> minute nt \<and> minute nt < 60
         \<and> second nt = 0 \<and> microsecond nt = 0"
  by (auto simp: replace_time_def replace_hm_def split: sum.splits if_splits)

text \<open>The weekly and the weekdays branch, with \<open>days_ahead\<close> worked out.\<close>

lemma next_time_weekly:
  "next_time (ascii ''weekly'') t now =
     (case add_days now (if weekday now = 0 then 0 else 7 - weekday now) of
        Inl e \<Rightarrow> Inl e
      | Inr nt \<Rightarrow> replace_time nt t)"
  by (simp add: next_time_def frequency_neq Let_def)

lemma weekday_range: "0 \<le> weekday d \<and> weekday d < 7"
  by (simp add: weekday_def)

lemma next_time_weekdays:
  "next_time (ascii ''weekdays'') t now =
     (case add_days now (if 1 \<le> weekday now then 6 - weekday now else 1) of
        Inl e \<Rightarrow> Inl e
      | Inr nt \<Rightarrow> replace_time nt t)"
proof (cases "1 \<le> weekday now")
  case True
  then show ?thesis by (simp add: next_time_def frequency_neq Let_def)
next
  case False
  with weekday_range [of now] have "weekday now = 0" by arith
  then show ?thesis by (simp add: next_time_def frequency_neq Let_def)
qed

text \<open>
  C7. For a profile with digests on, frequency \<open>weekly\<close> and time \<open>09:00\<close>, and a clock
  reading on a Wednesday at 10:00, the next digest time is five days later, a Monday, at
  09:00:00, and that is the time \<open>get_next_digest_time\<close> prints.
\<close>

theorem weekly_wednesday_next_monday:
  assumes "map_of (users_data st) user_id = Some ud"
    and "digest_enabled ud = Some True"
    and "digest_frequency ud = Some (ascii ''weekly'')"
    and "digest_time ud = Some (ascii ''09:00'')"
    and "valid_datetime now" and "ordinal now + 5 \<le> MAXORDINAL"
    and "weekday now = 2" and "hour now = 10" and "minute now = 0"
  shows "\<exists>nt. next_time (ascii ''weekly'') (ascii ''09:00'') now = Inr nt
           \<and> ordinal nt = ordinal now + 5 \<and> weekday nt = 0
           \<and> hour nt = 9 \<and> minute nt = 0 \<and> second nt = 0 \<and> microsecond nt = 0
           \<and> get_next_digest_time st user_id now = (strftime nt, st)"
proof -
  let ?nt = "now\<lparr>ordinal := ordinal now + 5, hour := 9, minute := 0, second := 0,
    microsecond := 0\<rparr>"
  from assms(5,6) have "add_days now 5 = Inr (now\<lparr>ordinal := ordinal now + 5\<rparr>)"
    by (simp add: add_days_def valid_datetime_def)
  with assms(7) have nt: "next_time (ascii ''weekly'') (ascii ''09:00'') now = Inr ?nt"
    by (simp add: next_time_weekly replace_time_0900)
  from assms(7) have "weekday ?nt = 0"
    by (simp add: weekday_def) presburger
  moreover from nt assms(1-4) have "get_next_digest_time st user_id now = (strftime ?nt, st)"
    by (simp add: get_next_digest_time_def get_user_data_def get_or_def)
  ultimately show ?thesis using nt by simp
qed

lemma profile_fields:
  "digest_enabled (profile f t) = Some True"
  "digest_frequency (profile f t) = Some (ascii f)"
  "digest_time (profile f t) = Some (ascii t)"
  by (simp_all add: profile_def default_user_data_def)

lemma wednesday_2024_01_03:
  "datetime_of 2024 1 3 10 0 0 0
     = \<lparr>ordinal = 738888, hour = 10, minute = 0, second = 0, microsecond = 0\<rparr>"
  by (simp add: calendar_defs)

lemma monday_2024_01_08:
  "datetime_of 2024 1 8 9 0 0 0
     = \<lparr>ordinal = 738893, hour = 9, minute = 0, second = 0, microsecond = 0\<rparr>"
  by (simp add: calendar_defs)

lemma strftime_2024_01_08:
  "strftime \<lparr>ordinal = 738893, hour = 9, minute = 0, second = 0, microsecond = 0\<rparr>
     = ascii ''08.01.2024 09:00''"
  by (simp add: strftime_def ord2ymd_def Let_def DAYS_BEFORE_MONTH_def DAYS_IN_MONTH_def
      two_digits_def four_digits_def digit_char_def ascii_def)

lemma state_of_lookup: "map_of (users_data (state_of ud)) 7 = Some ud"
  by (simp add: state_of_def)

theorem weekly_wednesday_next_monday_witness:
  "map_of (users_data (state_of (profile ''weekly'' ''09:00''))) 7
       = Some (profile ''weekly'' ''09:00'')
   \<and> digest_enabled (profile ''weekly'' ''09:00'') = Some True
   \<and> digest_frequency (profile ''weekly'' ''09:00'') = Some (ascii ''weekly'')
   \<and> digest_time (profile ''weekly'' ''09:00'') = Some (ascii ''09:00'')
   \<and> valid_datetime (datetime_of 2024 1 3 10 0 0 0)
   \<and> ordinal (datetime_of 2024 1 3 10 0 0 0) + 5 \<le> MAXORDINAL
   \<and> weekday (datetime_of 2024 1 3 10 0 0 0) = 2
   \<and> hour (datetime_of 2024 1 3 10 0 0 0) = 10
   \<and> minute (datetime_of 2024 1 3 10 0 0 0) = 0
   \<and> next_time (ascii ''weekly'') (ascii ''09:00'') (datetime_of 2024 1 3 10 0 0 0)
       = Inr (datetime_of 2024 1 8 9 0 0 0)
   \<and> get_next_digest_time (state_of (profile ''weekly'' ''09:00'')) 7
         (datetime_of 2024 1 3 10 0 0 0)
       = (ascii ''08.01.2024 09:00'', state_of (profile ''weekly'' ''09:00''))"
proof -
  let ?ud = "profile ''weekly'' ''09:00''" and ?now = "datetime_of 2024 1 3 10 0 0 0"
  have h: "valid_datetime ?now" "ordinal ?now + 5 \<le> MAXORDINAL" "weekday ?now = 2"
    "hour ?now = 10" "minute ?now = 0"
    by (simp_all add: wednesday_2024_01_03 valid_datetime_def MAXORDINAL_def weekday_def)
  have ev: "next_time (ascii ''weekly'') (ascii ''09:00'') ?now
      = Inr (datetime_of 2024 1 8 9 0 0 0)"
    by (simp add: next_time_weekly replace_time_0900 wednesday_2024_01_03 monday_2024_01_08
        weekday_def add_days_def MAXORDINAL_def)
  from weekly_wednesday_next_monday [OF state_of_lookup profile_fields h]
  obtain nt where "next_time (ascii ''weekly'') (ascii ''09:00'') ?now = Inr nt"
    and "get_next_digest_time (state_of ?ud) 7 ?now = (strftime nt, state_of ?ud)"
    by blast
  with ev have "get_next_digest_time (state_of ?ud) 7 ?now
      = (ascii ''08.01.2024 09:00'', state_of ?ud)"
    by (simp add: monday_2024_01_08 strftime_2024_01_08)
  with h ev show ?thesis by (simp add: profile_fields state_of_lookup)
qed

section \<open>Weekdays on a Saturday\<close>

lemma weekdays_saturday_any_time:
  assumes "weekday now = 5" and "next_time (ascii ''weekdays'') t now = Inr nt"
  shows "ordinal nt = ordinal now + 1 \<and> weekday nt = 6"
proof -
  from assms obtain d where d: "add_days now 1 = Inr d" and r: "replace_time d t = Inr nt"
    by (auto simp: next_time_weekdays split: sum.splits)
  from d have "ordinal d = ordinal now + 1"
    by (auto simp: add_days_def split: if_splits)
  with replace_time_fields [OF r] have o: "ordinal nt = ordinal now + 1" by simp
  from assms(1) have "(ordinal now + 1 + 6) mod 7 = 6"
    unfolding weekday_def by presburger
  with o show ?thesis by (simp add: weekday_def)
qed

lemma saturday_2024_01_06:
  "datetime_of 2024 1 6 12 0 0 0
     = \<lparr>ordinal = 738891, hour = 12, minute = 0, second = 0, microsecond = 0\<rparr>"
  by (simp add: calendar_defs)

lemma sunday_2024_01_07:
  "datetime_of 2024 1 7 9 0 0 0
     = \<lparr>ordinal = 738892, hour = 9, minute = 0, second = 0, microsecond = 0\<rparr>"
  by (simp add: calendar_defs)

lemma strftime_2024_01_07:
  "strftime \<lparr>ordinal = 738892, hour = 9, minute = 0, second = 0, microsecond = 0\<rparr>
     = ascii ''07.01.2024 09:00''"
  by (simp add: strftime_def ord2ymd_def Let_def DAYS_BEFORE_MONTH_def DAYS_IN_MONTH_def
      two_digits_def four_digits_def digit_char_def ascii_def)

lemma next_time_saturday_2024_01_06:
  "next_time (ascii ''weekdays'') (ascii ''09:00'') (datetime_of 2024 1 6 12 0 0 0)
     = Inr (datetime_of 2024 1 7 9 0 0 0)"
  by (simp add: next_time_weekdays replace_time_0900 saturday_2024_01_06 sunday_2024_01_07
      weekday_def add_days_def MAXORDINAL_def)

text \<open>
  C1. On Saturday 2024-01-06 at 12:00, with frequency \<open>weekdays\<close> and time \<open>09:00\<close>, the
  next digest time is Sunday 2024-01-07 at 09:00, not the following Monday.
\<close>

theorem weekdays_saturday_gives_sunday:
  "weekday (datetime_of 2024 1 6 12 0 0 0) = 5
   \<and> next_time (ascii ''weekdays'') (ascii ''09:00'') (datetime_of 2024 1 6 12 0 0 0)
       = Inr (datetime_of 2024 1 7 9 0 0 0)
   \<and> weekday (datetime_of 2024 1 7 9 0 0 0) = 6
   \<and> get_next_digest_time (state_of (profile ''weekdays'' ''09:00'')) 7
         (datetime_of 2024 1 6 12 0 0 0)
       = (ascii ''07.01.2024 09:00'', state_of (profile ''weekdays'' ''09:00''))"
proof -
  have "get_next_digest_time (state_of (profile ''weekdays'' ''09:00'')) 7
        (datetime_of 2024 1 6 12 0 0 0)
      = (ascii ''07.01.2024 09:00'', state_of (profile ''weekdays'' ''09:00''))"
    by (simp add: get_next_digest_time_def get_user_data_def state_of_lookup
        profile_fields get_or_def
        next_time_saturday_2024_01_06 sunday_2024_01_07 strftime_2024_01_07)
  then show ?thesis
    by (simp add: next_time_saturday_2024_01_06)
      (simp add: saturday_2024_01_06 sunday_2024_01_07 weekday_def)
qed

section \<open>The next time and the clock\<close>

lemma dt_less_total:
  assumes "\<not> dt_le a b"
  shows "dt_less b a"
proof -
  from assms have ne: "a \<noteq> b" and nl: "\<not> dt_less a b"
    by (auto simp: dt_le_def)
  from ne have "ordinal a \<noteq> ordinal b \<or> hour a \<noteq> hour b \<or> minute a \<noteq> minute b
      \<or> second a \<noteq> second b \<or> microsecond a \<noteq> microsecond b"
    by (auto intro: datetime.equality)
  with nl show ?thesis
    by (auto simp: dt_less_def)
qed

lemma daily_next_time_after_now:
  assumes "next_time (ascii ''daily'') t now = Inr nt"
  shows "dt_less now nt"
proof -
  from assms obtain r where r: "replace_time now t = Inr r"
    and nt: "(if dt_le r now then add_days r 1 else Inr r) = Inr nt"
    by (auto simp: next_time_def split: sum.splits)
  show ?thesis
  proof (cases "dt_le r now")
    case True
    with nt have "ordinal nt = ordinal r + 1"
      by (auto simp: add_days_def split: if_splits)
    with replace_time_fields [OF r] show ?thesis by (simp add: dt_less_def)
  next
    case False
    with nt have "nt = r" by simp
    with False show ?thesis by (simp add: dt_less_total)
  qed
qed

lemma monday_2024_01_01_10:
  "datetime_of 2024 1 1 10 0 0 0
     = \<lparr>ordinal = 738886, hour = 10, minute = 0, second = 0, microsecond = 0\<rparr>"
  by (simp add: calendar_defs)

lemma monday_2024_01_01_09:
  "datetime_of 2024 1 1 9 0 0 0
     = \<lparr>ordinal = 738886, hour = 9, minute = 0, second = 0, microsecond = 0\<rparr>"
  by (simp add: calendar_defs)

lemma strftime_2024_01_01:
  "strftime \<lparr>ordinal = 738886, hour = 9, minute = 0, second = 0, microsecond = 0\<rparr>
     = ascii ''01.01.2024 09:00''"
  by (simp add: strftime_def ord2ymd_def Let_def DAYS_BEFORE_MONTH_def DAYS_IN_MONTH_def
      two_digits_def four_digits_def digit_char_def ascii_def)

lemma next_time_monday_2024_01_01:
  "next_time (ascii ''weekly'') (ascii ''09:00'') (datetime_of 2024 1 1 10 0 0 0)
     = Inr (datetime_of 2024 1 1 9 0 0 0)"
  "next_time (ascii ''weekly'') (ascii ''09:00'') (datetime_of 2024 1 1 9 0 0 0)
     = Inr (datetime_of 2024 1 1 9 0 0 0)"
  by (simp_all add: next_time_weekly replace_time_0900 monday_2024_01_01_10
      monday_2024_01_01_09 weekday_def add_days_def MAXORDINAL_def)

text \<open>
  C3. On Monday 2024-01-01 at 10:00, with frequency \<open>weekly\<close> and time \<open>09:00\<close>, the next
  digest time is 09:00 of the same day, which is before the clock reading; and computed
  again at that time (after the digest fired), it is the same time once more.
\<close>

theorem weekly_monday_next_time_before_now:
  "weekday (datetime_of 2024 1 1 10 0 0 0) = 0
   \<and> next_time (ascii ''weekly'') (ascii ''09:00'') (datetime_of 2024 1 1 10 0 0 0)
       = Inr (datetime_of 2024 1 1 9 0 0 0)
   \<and> dt_less (datetime_of 2024 1 1 9 0 0 0) (datetime_of 2024 1 1 10 0 0 0)
   \<and> get_next_digest_time (state_of (profile ''weekly'' ''09:00'')) 7
         (datetime_of 2024 1 1 10 0 0 0)
       = (ascii ''01.01.2024 09:00'', state_of (profile ''weekly'' ''09:00''))
   \<and> next_time (ascii ''weekly'') (ascii ''09:00'') (datetime_of 2024 1 1 9 0 0 0)
       = Inr (datetime_of 2024 1 1 9 0 0 0)"
proof -
  have "get_next_digest_time (state_of (profile ''weekly'' ''09:00'')) 7
        (datetime_of 2024 1 1 10 0 0 0)
      = (ascii ''01.01.2024 09:00'', state_of (profile ''weekly'' ''09:00''))"
    by (simp add: get_next_digest_time_def get_user_data_def state_of_lookup
        profile_fields get_or_def
        next_time_monday_2024_01_01 monday_2024_01_01_09 strftime_2024_01_01)
  then show ?thesis
    by (simp add: next_time_monday_2024_01_01)
      (simp add: monday_2024_01_01_10 monday_2024_01_01_09 weekday_def dt_less_def)
qed

section \<open>Disabling the digest\<close>

lemma schedule_user_digest_disabled:
  "get_or (digest_enabled ud) False = False \<Longrightarrow> schedule_user_digest at_ok user_id ud js = js"
  by (simp add: schedule_user_digest_def)

lemma map_of_dict_set: "map_of (dict_set k v xs) k = Some v"
  by (induction xs) auto

lemma get_user_data_known:
  "map_of (users_data st) user_id = Some ud \<Longrightarrow> get_user_data st user_id = (ud, st)"
  by (simp add: get_user_data_def)

lemma update_disable_keeps_jobs:
  assumes "update_user_data at_ok st user_id data = Inr st'"
    and "u_digest_enabled data = Some False"
  shows "jobs st' = jobs st"
proof -
  from assms(1) obtain old where old: "map_of (users_data st) user_id = Some old"
    by (auto simp: update_user_data_def split: option.splits)
  let ?ud = "dict_update old data"
  let ?st1 = "st\<lparr>users_data := dict_set user_id ?ud (users_data st)\<rparr>"
  have g: "get_user_data ?st1 user_id = (?ud, ?st1)"
    by (rule get_user_data_known) (simp add: map_of_dict_set)
  from assms(2) have "get_or (digest_enabled ?ud) False = False"
    by (simp add: dict_update_def overwrite_def get_or_def)
  then have "schedule_user_digest at_ok user_id ?ud (jobs ?st1) = jobs st"
    by (simp add: schedule_user_digest_disabled)
  with assms old g show ?thesis
    by (auto simp: update_user_data_def Let_def has_key_def)
qed

text \<open>
  The registry of \<open>armed_state\<close> is what \<open>schedule_user_digest\<close> registers for its
  profile, when the library accepts the time.
\<close>

lemma armed_state_scheduled:
  "at_ok (ascii ''09:00'')
     \<Longrightarrow> schedule_user_digest at_ok 7 (profile ''daily'' ''09:00'') [] = jobs armed_state"
  by (simp add: schedule_user_digest_def profile_fields get_or_def parse_time_strict_def
      split_0900 py_int_09 py_int_00 remove_user_jobs_def armed_state_def)

text \<open>
  C2. A user with digests on has one daily job. After the update that sets
  \<open>digest_enabled\<close> to false, the profile is off and the job is still in the registry.
\<close>

theorem disable_digest_keeps_job:
  "\<forall>at_ok. update_user_data at_ok armed_state 7 disable_digest
     = Inr \<lparr>users_data = [(7, (profile ''daily'' ''09:00'')\<lparr>digest_enabled := Some False\<rparr>)],
            jobs = [new_job Day (ascii ''09:00'') 7]\<rparr>"
  by (simp add: update_user_data_def get_user_data_def armed_state_def disable_digest_def
      no_update_def has_key_def dict_update_def overwrite_def schedule_user_digest_def
      get_or_def profile_def default_user_data_def)

text \<open>The other path, \<open>update_all_schedules\<close>, leaves no job of a user whose digest is off.\<close>

lemma schedule_user_digest_tags:
  "j \<in> set (schedule_user_digest at_ok u ud js)
     \<Longrightarrow> j \<in> set js \<or> (tag j = u \<and> get_or (digest_enabled ud) False)"
  by (auto simp: schedule_user_digest_def remove_user_jobs_def new_job_def Let_def
      split: if_splits sum.splits)

lemma foldl_schedule_tags:
  "j \<in> set (foldl (\<lambda>js (u, ud). schedule_user_digest at_ok u ud js) acc us)
     \<Longrightarrow> j \<in> set acc \<or> (\<exists>(u, ud)\<in>set us. tag j = u \<and> get_or (digest_enabled ud) False)"
proof (induction us arbitrary: acc)
  case Nil
  then show ?case by simp
next
  case (Cons p us)
  obtain u ud where p: "p = (u, ud)" by (cases p)
  from Cons.prems p Cons.IH [of "schedule_user_digest at_ok u ud acc"]
  have "j \<in> set (schedule_user_digest at_ok u ud acc)
      \<or> (\<exists>(u, ud)\<in>set us. tag j = u \<and> get_or (digest_enabled ud) False)"
    by simp
  with p show ?case by (auto dest: schedule_user_digest_tags)
qed

lemma update_all_schedules_drops_disabled:
  assumes "\<forall>(u, ud)\<in>set (users_data st). u = user_id \<longrightarrow> \<not> get_or (digest_enabled ud) False"
    and "j \<in> set (jobs (update_all_schedules at_ok st))"
  shows "tag j \<noteq> user_id"
proof -
  from assms(2) foldl_schedule_tags [of j at_ok "[]" "users_data st"]
  have "\<exists>(u, ud)\<in>set (users_data st). tag j = u \<and> get_or (digest_enabled ud) False"
    by (simp add: update_all_schedules_def)
  with assms(1) show ?thesis by auto
qed

section \<open>The aggregation cap\<close>

text \<open>
  C6. Whatever the profile is and however many items the source adapters return,
  \<open>fetch_news\<close> returns at most 10 items.
\<close>

theorem fetch_news_at_most_10: "length (fetch_news lower ud f) \<le> 10"
proof (cases "fetch_news_body lower ud f")
  case (Inl e)
  then show ?thesis by (simp add: fetch_news_def)
next
  case (Inr final_news)
  then have "\<exists>xs. final_news = take 10 xs"
    by (auto simp: fetch_news_body_def Let_def split: sum.splits if_splits)
  with Inr show ?thesis by (auto simp: fetch_news_def)
qed

section \<open>The search by topics\<close>

lemma search_groups_eq:
  "search_groups lower pool ts acc = Inr groups
     \<Longrightarrow> groups = acc @ concat (map (topic_group lower pool) ts)
         \<and> (\<forall>t\<in>set ts. \<exists>filtered. filter_news lower pool (Some [t]) None = Inr filtered)"
proof (induction ts arbitrary: acc)
  case Nil
  then show ?case by simp
next
  case (Cons t ts)
  from Cons.prems obtain filtered
    where f: "filter_news lower pool (Some [t]) None = Inr filtered"
    by (cases "filter_news lower pool (Some [t]) None") auto
  with Cons.prems
  have "search_groups lower pool ts
          (if filtered \<noteq> [] then acc @ [(t, take 5 filtered)] else acc) = Inr groups"
    by simp
  from Cons.IH [OF this] f show ?case
    by (auto simp: topic_group_def)
qed

lemma topic_group_member:
  assumes "(t', g) \<in> set (topic_group lower pool t)"
  shows "t' = t \<and> length g \<le> 5 \<and> g \<noteq> []
       \<and> (\<exists>filtered. filter_news lower pool (Some [t]) None = Inr filtered
             \<and> g = take 5 filtered)"
proof (cases "filter_news lower pool (Some [t]) None")
  case (Inl e)
  with assms show ?thesis by (simp add: topic_group_def)
next
  case (Inr filtered)
  with assms show ?thesis by (auto simp: topic_group_def split: if_splits)
qed

lemma topic_group_fst: "map fst (topic_group lower pool t) = (if topic_group lower pool t = [] then [] else [t])"
  by (auto simp: topic_group_def split: sum.splits)

lemma concat_groups_names:
  "map fst (concat (map (topic_group lower pool) ts))
     = filter (\<lambda>t. topic_group lower pool t \<noteq> []) ts"
  by (induction ts) (auto simp: topic_group_fst)

text \<open>
  C9. When the loop over the topics returns, the topics of the groups are, in the order
  of the topic list, the topics whose filter result on the pool is not empty; every group
  of a topic is the first five items at most of \<open>filter_news\<close> of the same pool with that
  topic as the only keyword, and is not empty.
\<close>

theorem search_groups_per_topic:
  assumes "search_groups lower pool ts [] = Inr groups"
  shows "map fst groups = filter (\<lambda>t. filter_news lower pool (Some [t]) None \<noteq> Inr []) ts
       \<and> subseq (map fst groups) ts
       \<and> (\<forall>(t, g)\<in>set groups. length g \<le> 5 \<and> g \<noteq> []
             \<and> (\<exists>filtered. filter_news lower pool (Some [t]) None = Inr filtered
                   \<and> g = take 5 filtered))"
proof -
  from search_groups_eq [OF assms]
  have g: "groups = concat (map (topic_group lower pool) ts)"
    and ok: "\<forall>t\<in>set ts. \<exists>filtered. filter_news lower pool (Some [t]) None = Inr filtered"
    by simp_all
  have "\<forall>t\<in>set ts. (topic_group lower pool t \<noteq> [])
      = (filter_news lower pool (Some [t]) None \<noteq> Inr [])"
  proof
    fix t assume "t \<in> set ts"
    with ok obtain filtered where "filter_news lower pool (Some [t]) None = Inr filtered"
      by blast
    then show "(topic_group lower pool t \<noteq> [])
        = (filter_news lower pool (Some [t]) None \<noteq> Inr [])"
      by (simp add: topic_group_def)
  qed
  then have names: "map fst groups
      = filter (\<lambda>t. filter_news lower pool (Some [t]) None \<noteq> Inr []) ts"
    unfolding g concat_groups_names by (auto intro: filter_cong)
  then have "subseq (map fst groups) ts" by simp
  moreover have "\<forall>(t, g)\<in>set groups. length g \<le> 5 \<and> g \<noteq> []
      \<and> (\<exists>filtered. filter_news lower pool (Some [t]) None = Inr filtered \<and> g = take 5 filtered)"
    unfolding g by (auto dest: topic_group_member)
  ultimately show ?thesis using names by simp
qed

lemma ex_bitcoin_in_btc: "any_keyword lower_basic [ascii ''bitcoin''] (ascii ''bitcoin rallies '')"
  by (simp add: any_keyword_def lower_basic_def lower_cp_def ascii_def)

lemma ex_doge_not_in_btc: "\<not> any_keyword lower_basic [ascii ''doge''] (ascii ''bitcoin rallies '')"
  by (simp add: any_keyword_def lower_basic_def lower_cp_def ascii_def)

lemma ex_filter_bitcoin:
  "filter_news lower_basic [item_sale, item_btc] (Some [ascii ''bitcoin'']) None = Inr [item_btc]"
  by (simp add: filter_news_def ex_text_sale ex_text_btc ex_blacklisted_sale
      ex_not_blacklisted_btc truthy_def elems_def ex_bitcoin_in_btc)

lemma ex_filter_doge:
  "filter_news lower_basic [item_sale, item_btc] (Some [ascii ''doge'']) None = Inr []"
  by (simp add: filter_news_def ex_text_sale ex_text_btc ex_blacklisted_sale
      ex_not_blacklisted_btc truthy_def elems_def ex_doge_not_in_btc)

lemma ex_search:
  "search_groups lower_basic [item_sale, item_btc] [ascii ''doge'', ascii ''bitcoin''] []
     = Inr [(ascii ''bitcoin'', [item_btc])]"
  by (simp add: ex_filter_bitcoin ex_filter_doge)

theorem search_groups_per_topic_witness:
  "search_groups lower_basic [item_sale, item_btc] [ascii ''doge'', ascii ''bitcoin''] []
     = Inr [(ascii ''bitcoin'', [item_btc])]
   \<and> filter (\<lambda>t. filter_news lower_basic [item_sale, item_btc] (Some [t]) None \<noteq> Inr [])
         [ascii ''doge'', ascii ''bitcoin''] = [ascii ''bitcoin'']
   \<and> subseq [ascii ''bitcoin''] [ascii ''doge'', ascii ''bitcoin'']
   \<and> length [item_btc] \<le> 5
   \<and> filter_news lower_basic [item_sale, item_btc] (Some [ascii ''bitcoin'']) None
       = Inr [item_btc]"
  using search_groups_per_topic [OF ex_search] ex_search ex_filter_bitcoin by simp

lemma search_groups_returns:
  "list_all wf_item pool \<Longrightarrow> \<exists>groups. search_groups lower pool ts acc = Inr groups"
proof (induction ts arbitrary: acc)
  case Nil
  then show ?case by simp
next
  case (Cons t ts)
  from filter_news_loop_raises_nothing [OF Cons.prems, of lower "Some [t]" None "[]"]
  obtain filtered where "filter_news lower pool (Some [t]) None = Inr filtered"
    by (auto simp: filter_news_def)
  with Cons.IH [OF Cons.prems] show ?case by simp
qed

section \<open>The RSS parser\<close>

lemma dropWhile_all_Nil:
  assumes "\<forall>x\<in>set (dropWhile P xs). P x"
  shows "dropWhile P xs = []"
proof (rule ccontr)
  assume ne: "dropWhile P xs \<noteq> []"
  then have "\<not> P (hd (dropWhile P xs))" by (rule hd_dropWhile)
  moreover from ne have "hd (dropWhile P xs) \<in> set (dropWhile P xs)" by simp
  ultimately show False using assms by blast
qed

lemma strip_empty_iff: "strip s = [] \<longleftrightarrow> list_all isspace s"
proof
  assume "strip s = []"
  then have "\<forall>x\<in>set (dropWhile isspace s). isspace x"
    by (simp add: strip_def)
  then have "dropWhile isspace s = []" by (rule dropWhile_all_Nil)
  then have "\<forall>x\<in>set s. isspace x" by (simp only: dropWhile_eq_Nil_conv)
  then show "list_all isspace s" by (simp only: list_all_iff)
next
  assume "list_all isspace s"
  then have "\<forall>x\<in>set s. isspace x" by (simp only: list_all_iff)
  then have "dropWhile isspace s = []" by (simp only: dropWhile_eq_Nil_conv)
  then show "strip s = []" by (simp add: strip_def del: dropWhile_eq_Nil_conv)
qed

lemma no_title_iff:
  "no_title item \<longleftrightarrow> or_empty (stripped_text (find_child (ascii ''title'') item)) = []"
  by (auto simp: no_title_def stripped_text_def or_empty_def strip_empty_iff
      split: option.splits)

lemma parse_rss_item_no_title:
  "no_title item \<Longrightarrow> parse_rss_item lib now item feed_url lang = None"
  by (auto simp: no_title_iff parse_rss_item_def Let_def split: sum.splits)

lemma parse_rss_item_some_title:
  "parse_rss_item lib now item feed_url lang = Some n
     \<Longrightarrow> \<exists>t. title n = Some (PyStr t) \<and> t \<noteq> []"
  by (auto simp: parse_rss_item_def Let_def split: sum.splits if_splits)

text \<open>
  C8. An element without a title (no \<open>title\<close> child, or one whose text is missing, empty
  or whitespace) gives \<open>None\<close>, and every item \<open>_parse_rss_item\<close> returns has a title
  that is a non-empty string.
\<close>

theorem parse_rss_item_title:
  "(no_title item \<longrightarrow> parse_rss_item lib now item feed_url lang = None)
   \<and> (\<forall>n. parse_rss_item lib now item feed_url lang = Some n
          \<longrightarrow> (\<exists>t. title n = Some (PyStr t) \<and> t \<noteq> []))"
  using parse_rss_item_no_title [of item lib now feed_url lang]
    parse_rss_item_some_title [of lib now item feed_url lang]
  by blast

lemma ex_no_title_blank: "no_title elem_blank"
  by (simp add: no_title_def elem_blank_def find_child_def ascii_def isspace_def)

lemma ex_parse_hello:
  "map_option title (parse_rss_item lib_example now elem_hello feed_url lang)
     = Some (Some (PyStr (ascii ''Hello'')))"
  by (simp add: parse_rss_item_def elem_hello_def find_child_def stripped_text_def
      elem_or_def or_empty_def strip_def isspace_def ascii_def Let_def)

theorem parse_rss_item_title_witness:
  "no_title elem_blank
   \<and> parse_rss_item lib_example (datetime_of 2024 1 3 10 0 0 0) elem_blank
         (ascii ''https://lenta.ru/rss'') (ascii ''ru'') = None
   \<and> map_option title
         (parse_rss_item lib_example (datetime_of 2024 1 3 10 0 0 0) elem_hello
            (ascii ''https://lenta.ru/rss'') (ascii ''ru''))
       = Some (Some (PyStr (ascii ''Hello'')))"
  using parse_rss_item_title [of elem_blank lib_example "datetime_of 2024 1 3 10 0 0 0"
      "ascii ''https://lenta.ru/rss''" "ascii ''ru''"]
    ex_no_title_blank ex_parse_hello
  by simp

lemma parse_items_titles:
  "\<forall>n\<in>set acc. \<exists>t. title n = Some (PyStr t) \<and> t \<noteq> []
     \<Longrightarrow> \<forall>n\<in>set (parse_items lib now items feed_url lang acc).
           \<exists>t. title n = Some (PyStr t) \<and> t \<noteq> []"
proof (induction items arbitrary: acc)
  case Nil
  then show ?case by simp
next
  case (Cons item items)
  show ?case
  proof (cases "parse_rss_item lib now item feed_url lang")
    case None
    with Cons show ?thesis by simp
  next
    case (Some n)
    then have "\<exists>t. title n = Some (PyStr t) \<and> t \<noteq> []"
      by (rule parse_rss_item_some_title)
    with Cons.prems have "\<forall>n\<in>set (acc @ [n]). \<exists>t. title n = Some (PyStr t) \<and> t \<noteq> []"
      by auto
    from Cons.IH [OF this] Some show ?thesis by simp
  qed
qed

end
